theory Spec2Isabelle
  imports Main "HOL-Library.Word"
begin

unbundle bit_operations_syntax

section \<open>The SteelSeries headset driver (drivers/hid/hid-steelseries-headset.c)\<close>

subsection \<open>Machine types and constants\<close>

type_synonym u8 = "8 word"
type_synonym c_int = "32 word"
type_synonym c_ulong = "64 word"

text \<open>\<^verbatim>\<open>#define STEELSERIES_ARCTIS_1 BIT(0)\<close>\<close>

definition STEELSERIES_ARCTIS_1 :: c_ulong where
  "STEELSERIES_ARCTIS_1 = push_bit 0 1"

text \<open>\<^verbatim>\<open>#define STEELSERIES_HEADSET_BATTERY_TIMEOUT_MS 3000\<close>\<close>

definition STEELSERIES_HEADSET_BATTERY_TIMEOUT_MS :: nat where
  "STEELSERIES_HEADSET_BATTERY_TIMEOUT_MS = 3000"

text \<open>
  The errno numbers come from the kernel's headers (\<^verbatim>\<open>errno-base.h\<close>, \<^verbatim>\<open>errno.h\<close>),
  which are not part of the driver file. Only their sign matters below.
\<close>

definition ENOMEM :: c_int where
  "ENOMEM = 12"

definition ENODATA :: c_int where
  "ENODATA = 61"

subsection \<open>Effects on the outside world\<close>

datatype wireless_status =
  USB_WIRELESS_STATUS_DISCONNECTED
| USB_WIRELESS_STATUS_CONNECTED

datatype report_type = HID_INPUT_REPORT | HID_OUTPUT_REPORT | HID_FEATURE_REPORT

datatype request_type = HID_REQ_GET_REPORT | HID_REQ_SET_REPORT

text \<open>The arguments of one \<^verbatim>\<open>hid_hw_raw_request(hdev, reportnum, buf, len, rtype, reqtype)\<close>.\<close>

record hw_request =
  reportnum :: u8
  buf :: "u8 list"
  len :: nat
  rtype :: report_type
  reqtype :: request_type

text \<open>
  Every call that leaves the driver is recorded, in program order. The two log levels
  carry the message's format string; \<open>Schedule_delayed_work\<close> carries the delay.
\<close>

datatype event =
  Hid_err string
| Hid_dbg string
| Hid_hw_raw_request hw_request
| Usb_set_wireless_status wireless_status
| Power_supply_changed
| Power_supply_powers
| Spin_lock_irqsave
| Spin_unlock_irqrestore
| Schedule_delayed_work nat
| Cancel_delayed_work_sync
| Hid_hw_stop

text \<open>
  What the calls into the rest of the kernel return is not decided by the driver: it
  is an input of the model. Allocations succeed or fail; \<^verbatim>\<open>hid_parse\<close>,
  \<^verbatim>\<open>hid_hw_start\<close> and \<^verbatim>\<open>atomic_inc_return\<close> return an \<^verbatim>\<open>int\<close>;
  \<^verbatim>\<open>devm_power_supply_register\<close> returns a valid pointer (\<open>None\<close>) or
  \<^verbatim>\<open>ERR_PTR(e)\<close> (\<open>Some e\<close>); the transport answers each request with an
  \<^verbatim>\<open>int\<close>.
\<close>

record environment =
  devm_kzalloc_ok :: bool
  hid_parse_ret :: c_int
  hid_hw_start_ret :: c_int
  atomic_inc_return_ret :: c_int
  devm_kasprintf_ok :: bool
  devm_power_supply_register_err :: "c_int option"
  kmemdup_ok :: bool
  hid_hw_raw_request :: "hw_request \<Rightarrow> c_int"

subsection \<open>Device state\<close>

datatype power_supply_ptr = NULL | ERR_PTR c_int | Registered

text \<open>
  \<^verbatim>\<open>struct steelseries_headset\<close>. The \<^verbatim>\<open>hdev\<close> back pointer is left out, the
  spinlock shows as the two lock events, and of \<^verbatim>\<open>battery_desc\<close> only the number
  printed into the name is kept (\<open>None\<close> is the \<^verbatim>\<open>NULL\<close> name). \<open>battery_work\<close>
  holds the expiry times of the armed instances of the delayed work.
\<close>

record steelseries_headset =
  quirks :: c_ulong
  battery_work :: "nat list"
  removed :: bool
  battery_desc_name :: "c_ulong option"
  battery :: power_supply_ptr
  battery_capacity :: u8
  headset_connected :: bool

subsection \<open>The deferred-work primitives\<close>

text \<open>
  The kernel's timer and workqueue code (\<^verbatim>\<open>kernel/workqueue.c\<close>,
  \<^verbatim>\<open>include/linux/workqueue.h\<close>, \<^verbatim>\<open>include/linux/jiffies.h\<close>) is not in the
  driver file; the four primitives the driver calls follow the spec's section 4.2.
\<close>

text \<open>
  Modelled from the spec: \<^verbatim>\<open>msecs_to_jiffies\<close> is missing. The spec gives the delay
  in milliseconds ("\<open>delay\<close> = 3000ms"), and the clock of the model counts
  milliseconds.
\<close>

definition msecs_to_jiffies :: "nat \<Rightarrow> nat" where
  "msecs_to_jiffies ms = ms"

text \<open>
  Modelled from the spec: \<^verbatim>\<open>INIT_DELAYED_WORK\<close> is missing. A newly set up
  deferred task is not armed.
\<close>

definition INIT_DELAYED_WORK :: "nat list" where
  "INIT_DELAYED_WORK = []"

text \<open>
  Modelled from the spec: \<^verbatim>\<open>schedule_delayed_work\<close> is missing. The spec: "arms
  the deferred task to fire after \<open>delay\<close> from now, replacing any previously armed
  instance for this device (at most one instance armed concurrently)".
\<close>

definition schedule_delayed_work :: "nat \<Rightarrow> nat list \<Rightarrow> nat \<Rightarrow> nat list" where
  "schedule_delayed_work now work delay = [now + delay]"

text \<open>
  Modelled from the spec: \<^verbatim>\<open>cancel_delayed_work_sync\<close> is missing. The spec:
  "deterministically cancels any armed instance and blocks until any
  concurrently-executing callback instance has fully returned". In a sequential run
  no callback is executing when it is called.
\<close>

definition cancel_delayed_work_sync :: "nat list \<Rightarrow> nat list" where
  "cancel_delayed_work_sync work = []"

subsection \<open>Fetching the battery level\<close>

text \<open>
  \<^verbatim>\<open>steelseries_headset_arctis_1_fetch_battery\<close>. \<^verbatim>\<open>ret\<close> is an \<^verbatim>\<open>int\<close> and
  \<^verbatim>\<open>sizeof(battery_request)\<close> a \<^verbatim>\<open>size_t\<close>, so C compares them as unsigned
  64-bit values: \<^verbatim>\<open>ret\<close> is sign-extended first.
\<close>

definition battery_request :: "u8 list" where
  "battery_request = [0x06, 0x12]"

definition steelseries_headset_arctis_1_fetch_battery ::
  "environment \<Rightarrow> c_int \<times> event list" where
  "steelseries_headset_arctis_1_fetch_battery env =
     (if \<not> kmemdup_ok env then (- ENOMEM, [])
      else
        let write_buf = battery_request;
            req = \<lparr>reportnum = battery_request ! 0, buf = write_buf,
                   len = length battery_request,
                   rtype = HID_OUTPUT_REPORT, reqtype = HID_REQ_SET_REPORT\<rparr>;
            ret = hid_hw_raw_request env req
        in if (scast ret :: c_ulong) < of_nat (length battery_request)
           then (- ENODATA,
                 [Hid_hw_raw_request req, Hid_err ''hid_hw_raw_request() failed with %d''])
           else (ret, [Hid_hw_raw_request req]))"

text \<open>\<^verbatim>\<open>steelseries_headset_fetch_battery\<close> returns nothing and changes no field.\<close>

definition steelseries_headset_fetch_battery ::
  "environment \<Rightarrow> steelseries_headset \<Rightarrow> event list" where
  "steelseries_headset_fetch_battery env headset =
     (let (ret, evs) =
            (if quirks headset AND STEELSERIES_ARCTIS_1 \<noteq> 0
             then steelseries_headset_arctis_1_fetch_battery env
             else (0, []))
      in if ret <s 0 then evs @ [Hid_dbg ''Battery query failed (err: %d)'']
         else evs)"

definition steelseries_headset_battery_timer_tick ::
  "environment \<Rightarrow> steelseries_headset \<Rightarrow> event list" where
  "steelseries_headset_battery_timer_tick env headset =
     steelseries_headset_fetch_battery env headset"

subsection \<open>Handling an inbound report\<close>

text \<open>
  A read past the end of the report buffer is undefined in C; the model makes it a
  fault instead of a value.
\<close>

datatype fault = Out_of_bounds_read

definition read_byte :: "u8 list \<Rightarrow> nat \<Rightarrow> fault + u8" where
  "read_byte read_buf i =
     (if i < length read_buf then Inr (read_buf ! i) else Inl Out_of_bounds_read)"

text \<open>
  Lines 204 to 220 of \<^verbatim>\<open>steelseries_headset_raw_event\<close>: the candidate values of
  \<^verbatim>\<open>connected\<close> and \<^verbatim>\<open>capacity\<close> (an \<^verbatim>\<open>int\<close>) and the log line, or \<open>None\<close>
  for the early \<^verbatim>\<open>return 0\<close>.
\<close>

definition raw_event_parse ::
  "steelseries_headset \<Rightarrow> u8 list \<Rightarrow> c_int \<Rightarrow> fault + ((bool \<times> c_int) option \<times> event list)" where
  "raw_event_parse headset read_buf sz =
     (let capacity = (ucast (battery_capacity headset) :: c_int);
          connected = headset_connected headset
      in if quirks headset AND STEELSERIES_ARCTIS_1 \<noteq> 0 then
           (let log = [Hid_dbg ''Parsing raw event for Arctis 1 headset (len: %d)'']
            in if sz <s 8 then Inr (None, log)
               else case read_byte read_buf 2 of
                      Inl f \<Rightarrow> Inl f
                    | Inr b2 \<Rightarrow>
                        if b2 = 0x01 then Inr (Some (False, 100), log)
                        else (case read_byte read_buf 3 of
                                Inl f \<Rightarrow> Inl f
                              | Inr b3 \<Rightarrow> Inr (Some (True, ucast b3), log)))
         else Inr (Some (connected, capacity), []))"

text \<open>Lines 222 to 236: the connection status.\<close>

definition raw_event_connected ::
  "bool \<Rightarrow> steelseries_headset \<Rightarrow> steelseries_headset \<times> event list" where
  "raw_event_connected connected headset =
     (if connected \<noteq> headset_connected headset then
        (headset\<lparr>headset_connected := connected\<rparr>,
         [Hid_dbg ''Connected status changed from %sconnected to %sconnected'',
          Usb_set_wireless_status
            (if connected then USB_WIRELESS_STATUS_CONNECTED
             else USB_WIRELESS_STATUS_DISCONNECTED)])
      else (headset, []))"

text \<open>
  Lines 238 to 244: the capacity. The \<^verbatim>\<open>uint8_t\<close> field is promoted to \<^verbatim>\<open>int\<close>
  for the comparison, and the \<^verbatim>\<open>int\<close> is truncated by the store.
\<close>

definition raw_event_capacity ::
  "c_int \<Rightarrow> steelseries_headset \<Rightarrow> steelseries_headset \<times> event list" where
  "raw_event_capacity capacity headset =
     (if capacity \<noteq> ucast (battery_capacity headset) then
        (headset\<lparr>battery_capacity := ucast capacity\<rparr>,
         [Hid_dbg ''Battery capacity changed from %d%% to %d%%'', Power_supply_changed])
      else (headset, []))"

text \<open>Lines 246 to 250: the arming of the poll, inside the lock.\<close>

definition raw_event_arm ::
  "nat \<Rightarrow> steelseries_headset \<Rightarrow> steelseries_headset \<times> event list" where
  "raw_event_arm now headset =
     (if \<not> removed headset then
        (headset\<lparr>battery_work :=
            schedule_delayed_work now (battery_work headset)
              (msecs_to_jiffies STEELSERIES_HEADSET_BATTERY_TIMEOUT_MS)\<rparr>,
         [Spin_lock_irqsave,
          Schedule_delayed_work (msecs_to_jiffies STEELSERIES_HEADSET_BATTERY_TIMEOUT_MS),
          Spin_unlock_irqrestore])
      else (headset, [Spin_lock_irqsave, Spin_unlock_irqrestore]))"

text \<open>
  \<^verbatim>\<open>steelseries_headset_raw_event\<close> at time \<open>now\<close>: the return value, the device
  state afterwards and the calls made.
\<close>

definition steelseries_headset_raw_event ::
  "nat \<Rightarrow> steelseries_headset \<Rightarrow> u8 list \<Rightarrow> c_int
     \<Rightarrow> fault + (c_int \<times> steelseries_headset \<times> event list)" where
  "steelseries_headset_raw_event now headset read_buf sz =
     (case raw_event_parse headset read_buf sz of
        Inl f \<Rightarrow> Inl f
      | Inr (None, log) \<Rightarrow> Inr (0, headset, log)
      | Inr (Some (connected, capacity), log) \<Rightarrow>
          let (headset1, evs1) = raw_event_connected connected headset;
              (headset2, evs2) = raw_event_capacity capacity headset1;
              (headset3, evs3) = raw_event_arm now headset2
          in Inr (0, headset3, log @ evs1 @ evs2 @ evs3))"

text \<open>The notifications to the two collaborators among the calls made.\<close>

fun is_notification :: "event \<Rightarrow> bool" where
  "is_notification (Usb_set_wireless_status s) = True"
| "is_notification Power_supply_changed = True"
| "is_notification e = False"

subsection \<open>Attaching and detaching the device\<close>

text \<open>
  \<^verbatim>\<open>steelseries_headset_battery_register\<close>: its return value, the device state
  afterwards and the calls made. The descriptor's constant fields are left out.
\<close>

definition steelseries_headset_battery_register ::
  "environment \<Rightarrow> steelseries_headset \<Rightarrow> c_int \<times> steelseries_headset \<times> event list" where
  "steelseries_headset_battery_register env headset =
     (let n = (scast (atomic_inc_return_ret env - 1) :: c_ulong)
      in if \<not> devm_kasprintf_ok env
         then (- ENOMEM, headset\<lparr>battery_desc_name := None\<rparr>, [])
         else
           let headset1 = headset\<lparr>battery_desc_name := Some n, battery_capacity := 100\<rparr>
           in case devm_power_supply_register_err env of
                Some e \<Rightarrow>
                  (e, headset1\<lparr>battery := ERR_PTR e\<rparr>,
                   [Hid_err ''%s:power_supply_register failed with error %d''])
              | None \<Rightarrow>
                  let headset2 = headset1\<lparr>battery := Registered,
                                          battery_work := INIT_DELAYED_WORK\<rparr>
                  in (0, headset2,
                      Power_supply_powers # steelseries_headset_fetch_battery env headset2))"

text \<open>The memory \<^verbatim>\<open>devm_kzalloc\<close> hands out is zeroed.\<close>

definition zeroed_headset :: steelseries_headset where
  "zeroed_headset =
     \<lparr>quirks = 0, battery_work = [], removed = False, battery_desc_name = None,
      battery = NULL, battery_capacity = 0, headset_connected = False\<rparr>"

text \<open>
  \<^verbatim>\<open>steelseries_headset_probe\<close> with \<^verbatim>\<open>id->driver_data\<close>: its return value, the
  device state it allocated (if any) and the calls made.
\<close>

definition steelseries_headset_probe ::
  "environment \<Rightarrow> c_ulong \<Rightarrow> c_int \<times> steelseries_headset option \<times> event list" where
  "steelseries_headset_probe env driver_data =
     (if \<not> devm_kzalloc_ok env then (- ENOMEM, None, [])
      else
        let headset = zeroed_headset\<lparr>quirks := driver_data\<rparr>;
            ret = hid_parse_ret env
        in if ret \<noteq> 0 then (ret, Some headset, [])
           else
             let ret = hid_hw_start_ret env
             in if ret \<noteq> 0 then (ret, Some headset, [])
                else
                  let (r, headset1, evs) = steelseries_headset_battery_register env headset
                  in (ret, Some headset1,
                      if r <s 0
                      then evs @ [Hid_err ''Failed to register battery for headset'']
                      else evs))"

text \<open>\<^verbatim>\<open>steelseries_headset_remove\<close>.\<close>

definition steelseries_headset_remove ::
  "steelseries_headset \<Rightarrow> steelseries_headset \<times> event list" where
  "steelseries_headset_remove headset =
     (let headset1 = headset\<lparr>removed := True\<rparr>;
          headset2 = headset1\<lparr>battery_work := cancel_delayed_work_sync (battery_work headset1)\<rparr>
      in (headset2,
          [Spin_lock_irqsave, Spin_unlock_irqrestore, Cancel_delayed_work_sync, Hid_hw_stop]))"

subsection \<open>The driver over time\<close>

text \<open>
  The HID core hands the handler a report together with its length. Such a call never
  reads out of bounds (\<open>deliver_report_no_fault\<close> below), so the first branch is
  never taken.
\<close>

definition deliver_report ::
  "nat \<Rightarrow> u8 list \<Rightarrow> steelseries_headset \<Rightarrow> steelseries_headset \<times> event list" where
  "deliver_report now report headset =
     (case steelseries_headset_raw_event now headset report (of_nat (length report)) of
        Inl f \<Rightarrow> (headset, [])
      | Inr (ret, headset1, evs) \<Rightarrow> (headset1, evs))"

text \<open>
  Modelled from the spec: the kernel code that runs a delayed work when its timer
  expires is missing. The spec's deferred task is "a unit of work scheduled to run
  once after a delay": at time \<open>now\<close> every armed instance whose expiry time has come
  is taken off and runs \<^verbatim>\<open>steelseries_headset_battery_timer_tick\<close>.
\<close>

definition timer_expire ::
  "environment \<Rightarrow> nat \<Rightarrow> steelseries_headset \<Rightarrow> steelseries_headset \<times> event list" where
  "timer_expire env now headset =
     (let due = filter (\<lambda>t. t \<le> now) (battery_work headset);
          headset1 = headset\<lparr>battery_work := filter (\<lambda>t. now < t) (battery_work headset)\<rparr>
      in (headset1,
          concat (map (\<lambda>t. steelseries_headset_battery_timer_tick env headset1) due)))"

text \<open>
  What can happen to an attached device: a report arrives, the timer runs (with the
  answers the kernel gives during that tick), or the device is detached.
\<close>

datatype action = Report "u8 list" | Timer environment | Remove

fun step :: "nat \<Rightarrow> action \<Rightarrow> steelseries_headset \<Rightarrow> steelseries_headset \<times> event list" where
  "step now (Report report) headset = deliver_report now report headset"
| "step now (Timer env) headset = timer_expire env now headset"
| "step now Remove headset = steelseries_headset_remove headset"

text \<open>A run is a list of actions, each with the time at which it happens.\<close>

fun run ::
  "(nat \<times> action) list \<Rightarrow> steelseries_headset \<Rightarrow> steelseries_headset \<times> event list" where
  "run [] headset = (headset, [])"
| "run ((now, a) # rest) headset =
     (let (headset1, evs1) = step now a headset;
          (headset2, evs2) = run rest headset1
      in (headset2, evs1 @ evs2))"

fun is_arming :: "event \<Rightarrow> bool" where
  "is_arming (Schedule_delayed_work d) = True"
| "is_arming e = False"

fun is_transfer :: "event \<Rightarrow> bool" where
  "is_transfer (Hid_hw_raw_request r) = True"
| "is_transfer e = False"

subsection \<open>Concrete devices and inputs\<close>

text \<open>An Arctis 1 headset as a successful attach leaves it, and one of another model.\<close>

definition arctis_1_headset :: steelseries_headset where
  "arctis_1_headset =
     \<lparr>quirks = 1, battery_work = [], removed = False, battery_desc_name = Some 0,
      battery = Registered, battery_capacity = 100, headset_connected = False\<rparr>"

definition other_headset :: steelseries_headset where
  "other_headset = arctis_1_headset\<lparr>quirks := 0\<rparr>"

text \<open>The same headset believed connected at 55 percent.\<close>

definition connected_headset :: steelseries_headset where
  "connected_headset = arctis_1_headset\<lparr>battery_capacity := 55, headset_connected := True\<rparr>"

text \<open>The same headset with the poll armed for time 3000.\<close>

definition armed_headset :: steelseries_headset where
  "armed_headset = arctis_1_headset\<lparr>battery_work := [3000]\<rparr>"

text \<open>Reports: headset off; headset on at 77 percent; headset on with level byte 200.\<close>

definition absent_report :: "u8 list" where
  "absent_report = [0, 0, 0x01, 0, 0, 0, 0, 0]"

definition present_report :: "u8 list" where
  "present_report = [0, 0, 0, 77, 0, 0, 0, 0]"

definition overfull_report :: "u8 list" where
  "overfull_report = [0, 0, 0, 200, 0, 0, 0, 0]"

text \<open>A kernel in which every call succeeds and the transport accepts both bytes.\<close>

definition good_environment :: environment where
  "good_environment =
     \<lparr>devm_kzalloc_ok = True, hid_parse_ret = 0, hid_hw_start_ret = 0,
      atomic_inc_return_ret = 1, devm_kasprintf_ok = True,
      devm_power_supply_register_err = None, kmemdup_ok = True,
      hid_hw_raw_request = (\<lambda>r. 2)\<rparr>"

text \<open>Kernels in which one call fails: an allocation, or the transport takes one byte.\<close>

definition no_state_environment :: environment where
  "no_state_environment = good_environment\<lparr>devm_kzalloc_ok := False\<rparr>"

definition no_name_environment :: environment where
  "no_name_environment = good_environment\<lparr>devm_kasprintf_ok := False\<rparr>"

definition no_buffer_environment :: environment where
  "no_buffer_environment = good_environment\<lparr>kmemdup_ok := False\<rparr>"

definition short_write_environment :: environment where
  "short_write_environment = good_environment\<lparr>hid_hw_raw_request := (\<lambda>r. 1)\<rparr>"

text \<open>The one transfer the battery query makes.\<close>

definition battery_transfer :: hw_request where
  "battery_transfer =
     \<lparr>reportnum = 0x06, buf = [0x06, 0x12], len = 2,
      rtype = HID_OUTPUT_REPORT, reqtype = HID_REQ_SET_REPORT\<rparr>"

section \<open>Properties\<close>

subsection \<open>Conversions between the integer types\<close>

lemma ucast_u8_roundtrip: "(ucast (ucast (a :: u8) :: c_int) :: u8) = a"
  by (simp add: ucast_up_ucast_id is_up)

lemma ucast_u8_int_inj: "((ucast (a :: u8) :: c_int) = ucast (b :: u8)) = (a = b)"
  by (metis ucast_u8_roundtrip)

lemma ucast_100: "(100 :: c_int) = ucast (100 :: u8)"
  by simp

subsection \<open>The blocks of the report handler\<close>

lemma read_byte_in_range: "i < length read_buf \<Longrightarrow> read_byte read_buf i = Inr (read_buf ! i)"
  by (simp add: read_byte_def)

lemma connected_after:
  "headset_connected (fst (raw_event_connected c h)) = c"
  "battery_capacity (fst (raw_event_connected c h)) = battery_capacity h"
  "removed (fst (raw_event_connected c h)) = removed h"
  "battery_work (fst (raw_event_connected c h)) = battery_work h"
  "quirks (fst (raw_event_connected c h)) = quirks h"
  by (auto simp: raw_event_connected_def)

lemma connected_events:
  "snd (raw_event_connected c h) =
     (if c \<noteq> headset_connected h
      then [Hid_dbg ''Connected status changed from %sconnected to %sconnected'',
            Usb_set_wireless_status
              (if c then USB_WIRELESS_STATUS_CONNECTED else USB_WIRELESS_STATUS_DISCONNECTED)]
      else [])"
  by (simp add: raw_event_connected_def)

lemma connected_same: "raw_event_connected (headset_connected h) h = (h, [])"
  by (simp add: raw_event_connected_def)

lemma capacity_after:
  "battery_capacity (fst (raw_event_capacity (ucast b) h)) = b"
  "headset_connected (fst (raw_event_capacity cap h)) = headset_connected h"
  "removed (fst (raw_event_capacity cap h)) = removed h"
  "battery_work (fst (raw_event_capacity cap h)) = battery_work h"
  "quirks (fst (raw_event_capacity cap h)) = quirks h"
  by (auto simp: raw_event_capacity_def ucast_u8_roundtrip ucast_u8_int_inj)

lemma capacity_after_100:
  "battery_capacity (fst (raw_event_capacity 100 h)) = 100"
  using capacity_after(1) [of 100 h] by simp

lemma capacity_events:
  "snd (raw_event_capacity cap h) =
     (if cap \<noteq> ucast (battery_capacity h)
      then [Hid_dbg ''Battery capacity changed from %d%% to %d%%'', Power_supply_changed]
      else [])"
  by (simp add: raw_event_capacity_def)

lemma capacity_same: "raw_event_capacity (ucast (battery_capacity h)) h = (h, [])"
  by (simp add: raw_event_capacity_def)

lemma arm_after:
  "battery_capacity (fst (raw_event_arm now h)) = battery_capacity h"
  "headset_connected (fst (raw_event_arm now h)) = headset_connected h"
  "removed (fst (raw_event_arm now h)) = removed h"
  "quirks (fst (raw_event_arm now h)) = quirks h"
  "battery_work (fst (raw_event_arm now h)) =
     (if removed h then battery_work h else [now + 3000])"
  by (auto simp: raw_event_arm_def schedule_delayed_work_def msecs_to_jiffies_def
      STEELSERIES_HEADSET_BATTERY_TIMEOUT_MS_def)

lemma arm_events:
  "snd (raw_event_arm now h) =
     (if removed h then [Spin_lock_irqsave, Spin_unlock_irqrestore]
      else [Spin_lock_irqsave, Schedule_delayed_work 3000, Spin_unlock_irqrestore])"
  by (simp add: raw_event_arm_def msecs_to_jiffies_def
      STEELSERIES_HEADSET_BATTERY_TIMEOUT_MS_def)

lemma raw_event_processed:
  assumes "raw_event_parse h b s = Inr (Some (c, cap), log)"
  shows "steelseries_headset_raw_event now h b s =
     Inr (0,
          fst (raw_event_arm now (fst (raw_event_capacity cap (fst (raw_event_connected c h))))),
          log @ snd (raw_event_connected c h)
              @ snd (raw_event_capacity cap (fst (raw_event_connected c h)))
              @ snd (raw_event_arm now (fst (raw_event_capacity cap (fst (raw_event_connected c h))))))"
  using assms by (simp add: steelseries_headset_raw_event_def case_prod_beta)

lemma parse_short:
  assumes "quirks h AND STEELSERIES_ARCTIS_1 \<noteq> 0" and "sint s < 8"
  shows "raw_event_parse h b s =
           Inr (None, [Hid_dbg ''Parsing raw event for Arctis 1 headset (len: %d)''])"
  using assms by (simp add: raw_event_parse_def word_sless_alt)

lemma parse_absent:
  assumes "quirks h AND STEELSERIES_ARCTIS_1 \<noteq> 0" and "8 \<le> sint s"
    and "nat (sint s) \<le> length b" and "b ! 2 = 0x01"
  shows "raw_event_parse h b s = Inr (Some (False, 100),
           [Hid_dbg ''Parsing raw event for Arctis 1 headset (len: %d)''])"
proof -
  have "2 < length b" using assms(2,3) by linarith
  then show ?thesis
    using assms by (simp add: raw_event_parse_def word_sless_alt read_byte_in_range)
qed

lemma parse_present:
  assumes "quirks h AND STEELSERIES_ARCTIS_1 \<noteq> 0" and "8 \<le> sint s"
    and "nat (sint s) \<le> length b" and "b ! 2 \<noteq> 0x01"
  shows "raw_event_parse h b s = Inr (Some (True, ucast (b ! 3)),
           [Hid_dbg ''Parsing raw event for Arctis 1 headset (len: %d)''])"
proof -
  have "2 < length b" "3 < length b" using assms(2,3) by linarith+
  then show ?thesis
    using assms by (simp add: raw_event_parse_def word_sless_alt read_byte_in_range)
qed

lemma parse_other:
  assumes "quirks h AND STEELSERIES_ARCTIS_1 = 0"
  shows "raw_event_parse h b s =
           Inr (Some (headset_connected h, ucast (battery_capacity h)), [])"
  using assms by (simp add: raw_event_parse_def)

lemma parse_None:
  assumes "raw_event_parse h b s = Inr (None, log)"
  shows "quirks h AND STEELSERIES_ARCTIS_1 \<noteq> 0 \<and> sint s < 8"
  using assms
  by (auto simp: raw_event_parse_def read_byte_def word_sless_alt Let_def
      split: if_splits sum.splits)

lemma parse_log:
  assumes "raw_event_parse h b s = Inr (dec, log)"
  shows "log = [] \<or> log = [Hid_dbg ''Parsing raw event for Arctis 1 headset (len: %d)'']"
  using assms
  by (auto simp: raw_event_parse_def read_byte_def Let_def split: if_splits sum.splits)

lemma parse_capacity_u8:
  assumes "raw_event_parse h b s = Inr (Some (c, cap), log)"
  shows "\<exists>v :: u8. cap = ucast v"
proof -
  from assms have "cap = 100 \<or> cap = ucast (b ! 3) \<or> cap = ucast (battery_capacity h)"
    by (auto simp: raw_event_parse_def read_byte_def Let_def split: if_splits sum.splits)
  then show ?thesis using ucast_100 by metis
qed

lemma parse_total:
  assumes "nat (sint s) \<le> length b"
  shows "\<exists>dec log. raw_event_parse h b s = Inr (dec, log)"
proof (cases "quirks h AND STEELSERIES_ARCTIS_1 = 0")
  case True
  then show ?thesis by (simp add: parse_other)
next
  case quirk: False
  show ?thesis
  proof (cases "sint s < 8")
    case True
    with quirk show ?thesis by (simp add: parse_short)
  next
    case False
    then show ?thesis
      using quirk assms parse_absent [of h s b] parse_present [of h s b]
      by (cases "b ! 2 = 1") auto
  qed
qed

subsection \<open>Reports shorter than eight bytes\<close>

text \<open>
  C4. For every report of length strictly less than 8 delivered to a device with the
  Arctis-1 quirk, the handler returns 0, leaves the device state unchanged (the
  connection status and the battery level among it) and notifies neither collaborator:
  the only call made is the debug log line.
\<close>

theorem short_report_ignored:
  assumes "quirks headset AND STEELSERIES_ARCTIS_1 \<noteq> 0" and "sint sz < 8"
  shows "\<exists>evs. steelseries_headset_raw_event now headset read_buf sz = Inr (0, headset, evs)
           \<and> filter is_notification evs = []"
  using assms
  by (simp add: steelseries_headset_raw_event_def parse_short)

theorem short_report_ignored_witness:
  "quirks arctis_1_headset AND STEELSERIES_ARCTIS_1 \<noteq> 0 \<and> sint (4 :: c_int) < 8
   \<and> (\<exists>evs. steelseries_headset_raw_event 0 arctis_1_headset [0, 0, 0, 0] 4
               = Inr (0, arctis_1_headset, evs)
            \<and> filter is_notification evs = [])"
  using short_report_ignored [of arctis_1_headset 4 0 "[0, 0, 0, 0]"]
  by (simp add: arctis_1_headset_def STEELSERIES_ARCTIS_1_def)

subsection \<open>Decoding a full report\<close>

text \<open>
  C2. For every report of length at least 8 (the buffer holds the \<open>sz\<close> bytes it is
  said to hold) delivered to a device with the Arctis-1 quirk whose byte at offset 2
  is 0x01, the handler returns 0 and the state afterwards has the headset not
  connected and the battery level 100, whatever the state before.
\<close>

theorem absent_report_decoded:
  assumes "quirks headset AND STEELSERIES_ARCTIS_1 \<noteq> 0" and "8 \<le> sint sz"
    and "nat (sint sz) \<le> length read_buf" and "read_buf ! 2 = 0x01"
  shows "\<exists>headset1 evs.
           steelseries_headset_raw_event now headset read_buf sz = Inr (0, headset1, evs)
           \<and> \<not> headset_connected headset1 \<and> battery_capacity headset1 = 100"
proof -
  note p = parse_absent [OF assms]
  show ?thesis
    unfolding raw_event_processed [OF p]
    by (simp add: arm_after capacity_after_100 capacity_after connected_after)
qed

theorem absent_report_decoded_witness:
  "quirks connected_headset AND STEELSERIES_ARCTIS_1 \<noteq> 0 \<and> 8 \<le> sint (8 :: c_int)
   \<and> nat (sint (8 :: c_int)) \<le> length absent_report \<and> absent_report ! 2 = 0x01
   \<and> (\<exists>headset1 evs.
         steelseries_headset_raw_event 0 connected_headset absent_report 8
           = Inr (0, headset1, evs)
         \<and> \<not> headset_connected headset1 \<and> battery_capacity headset1 = 100)"
proof -
  have q: "quirks connected_headset AND STEELSERIES_ARCTIS_1 \<noteq> 0"
    by (simp add: connected_headset_def arctis_1_headset_def STEELSERIES_ARCTIS_1_def)
  have l: "8 \<le> sint (8 :: c_int)" "nat (sint (8 :: c_int)) \<le> length absent_report"
    and b: "absent_report ! 2 = 0x01"
    by (simp_all add: absent_report_def)
  show ?thesis
    using q l b absent_report_decoded [OF q l b, of 0] by simp
qed

text \<open>
  C3. For every report of length at least 8 delivered to a device with the Arctis-1
  quirk whose byte at offset 2 is not 0x01, the handler returns 0 and the state
  afterwards has the headset connected and the battery level equal to the byte at
  offset 3, whatever its value.
\<close>

theorem present_report_decoded:
  assumes "quirks headset AND STEELSERIES_ARCTIS_1 \<noteq> 0" and "8 \<le> sint sz"
    and "nat (sint sz) \<le> length read_buf" and "read_buf ! 2 \<noteq> 0x01"
  shows "\<exists>headset1 evs.
           steelseries_headset_raw_event now headset read_buf sz = Inr (0, headset1, evs)
           \<and> headset_connected headset1 \<and> battery_capacity headset1 = read_buf ! 3"
proof -
  note p = parse_present [OF assms]
  show ?thesis
    unfolding raw_event_processed [OF p]
    by (simp add: arm_after capacity_after connected_after)
qed

theorem present_report_decoded_witness:
  "quirks arctis_1_headset AND STEELSERIES_ARCTIS_1 \<noteq> 0 \<and> 8 \<le> sint (8 :: c_int)
   \<and> nat (sint (8 :: c_int)) \<le> length overfull_report \<and> overfull_report ! 2 \<noteq> 0x01
   \<and> (\<exists>headset1 evs.
         steelseries_headset_raw_event 0 arctis_1_headset overfull_report 8
           = Inr (0, headset1, evs)
         \<and> headset_connected headset1 \<and> battery_capacity headset1 = overfull_report ! 3)
   \<and> overfull_report ! 3 = 200"
proof -
  have q: "quirks arctis_1_headset AND STEELSERIES_ARCTIS_1 \<noteq> 0"
    by (simp add: arctis_1_headset_def STEELSERIES_ARCTIS_1_def)
  have l: "8 \<le> sint (8 :: c_int)" "nat (sint (8 :: c_int)) \<le> length overfull_report"
    and b: "overfull_report ! 2 \<noteq> 0x01"
    by (simp_all add: overfull_report_def)
  have v: "overfull_report ! 3 = 200"
    by (simp add: overfull_report_def)
  show ?thesis
    using q l b v present_report_decoded [OF q l b, of 0] by simp
qed

subsection \<open>Notifications\<close>

text \<open>
  C5. Whenever the handler decodes a report without reading out of bounds, the
  wireless-status notification is among its calls if and only if the decoded
  connection status differs from the stored one, and the power-supply notification if
  and only if the decoded capacity differs from the stored one; and each of the two
  stored fields changes exactly when its notification is made (on the early return
  neither happens).
\<close>

theorem notification_iff_change:
  assumes "raw_event_parse headset read_buf sz = Inr (dec, log)"
  shows "\<exists>headset1 evs.
           steelseries_headset_raw_event now headset read_buf sz = Inr (0, headset1, evs)
           \<and> (headset_connected headset1 \<noteq> headset_connected headset
                \<longleftrightarrow> (\<exists>st. Usb_set_wireless_status st \<in> set evs))
           \<and> (battery_capacity headset1 \<noteq> battery_capacity headset
                \<longleftrightarrow> Power_supply_changed \<in> set evs)
           \<and> (\<forall>connected capacity. dec = Some (connected, capacity) \<longrightarrow>
                 ((\<exists>st. Usb_set_wireless_status st \<in> set evs)
                    \<longleftrightarrow> connected \<noteq> headset_connected headset)
                 \<and> (Power_supply_changed \<in> set evs
                    \<longleftrightarrow> capacity \<noteq> ucast (battery_capacity headset)))"
proof (cases dec)
  case None
  have "steelseries_headset_raw_event now headset read_buf sz = Inr (0, headset, log)"
    using assms None by (simp add: steelseries_headset_raw_event_def)
  moreover have "\<forall>st. Usb_set_wireless_status st \<notin> set log" "Power_supply_changed \<notin> set log"
    using parse_log [OF assms] by auto
  ultimately show ?thesis using None by simp
next
  case (Some p)
  obtain c cap where p: "p = (c, cap)" by (cases p)
  have parse: "raw_event_parse headset read_buf sz = Inr (Some (c, cap), log)"
    using assms Some p by simp
  obtain v :: u8 where v: "cap = ucast v"
    using parse_capacity_u8 [OF parse] by blast
  have log: "\<forall>st. Usb_set_wireless_status st \<notin> set log" "Power_supply_changed \<notin> set log"
    using parse_log [OF assms] by auto
  show ?thesis
    unfolding raw_event_processed [OF parse]
    using log Some p
    by (simp add: v arm_after capacity_after connected_after connected_events
        capacity_events arm_events ucast_u8_int_inj)
qed

theorem notification_iff_change_witness:
  "raw_event_parse arctis_1_headset present_report 8
     = Inr (Some (True, 77), [Hid_dbg ''Parsing raw event for Arctis 1 headset (len: %d)''])
   \<and> (\<exists>headset1 evs.
         steelseries_headset_raw_event 0 arctis_1_headset present_report 8
           = Inr (0, headset1, evs)
         \<and> headset_connected headset1 \<noteq> headset_connected arctis_1_headset
         \<and> (\<exists>st. Usb_set_wireless_status st \<in> set evs)
         \<and> battery_capacity headset1 \<noteq> battery_capacity arctis_1_headset
         \<and> Power_supply_changed \<in> set evs)"
proof -
  have q: "quirks arctis_1_headset AND STEELSERIES_ARCTIS_1 \<noteq> 0"
    by (simp add: arctis_1_headset_def STEELSERIES_ARCTIS_1_def)
  have "raw_event_parse arctis_1_headset present_report 8
     = Inr (Some (True, ucast (present_report ! 3)),
            [Hid_dbg ''Parsing raw event for Arctis 1 headset (len: %d)''])"
    by (rule parse_present [OF q]) (simp_all add: present_report_def)
  then have p: "raw_event_parse arctis_1_headset present_report 8
     = Inr (Some (True, 77), [Hid_dbg ''Parsing raw event for Arctis 1 headset (len: %d)''])"
    by (simp add: present_report_def)
  have s: "headset_connected arctis_1_headset = False"
    "ucast (battery_capacity arctis_1_headset) = (100 :: c_int)"
    by (simp_all add: arctis_1_headset_def)
  show ?thesis
    using p s notification_iff_change [OF p, of 0] by auto
qed

subsection \<open>Arming the poll from the report handler\<close>

text \<open>
  C6, as the code has it. For every report whose buffer holds the \<open>sz\<close> bytes it is
  said to hold, the handler returns 0. Unless the device has the Arctis-1 quirk and
  the report is shorter than 8 bytes, the handler ends with the arming attempt: it
  takes the lock, schedules the poll 3000 ms ahead if and only if \<open>removed\<close> is
  false, and releases the lock, whether or not any state changed. For a report shorter
  than 8 bytes on an Arctis-1 device the handler returns before that: it never takes
  the lock and arms nothing.
\<close>

theorem arm_attempt_unless_short:
  assumes "nat (sint sz) \<le> length read_buf"
  shows "\<exists>headset1 evs.
           steelseries_headset_raw_event now headset read_buf sz = Inr (0, headset1, evs)
           \<and> (if quirks headset AND STEELSERIES_ARCTIS_1 \<noteq> 0 \<and> sint sz < 8
               then Spin_lock_irqsave \<notin> set evs \<and> filter is_arming evs = []
                    \<and> battery_work headset1 = battery_work headset
               else (\<exists>pre. evs = pre @
                             (if removed headset
                              then [Spin_lock_irqsave, Spin_unlock_irqrestore]
                              else [Spin_lock_irqsave, Schedule_delayed_work 3000,
                                    Spin_unlock_irqrestore])
                           \<and> Spin_lock_irqsave \<notin> set pre)
                    \<and> battery_work headset1 =
                        (if removed headset then battery_work headset else [now + 3000]))"
proof (cases "quirks headset AND STEELSERIES_ARCTIS_1 \<noteq> 0 \<and> sint sz < 8")
  case True
  then have "steelseries_headset_raw_event now headset read_buf sz =
      Inr (0, headset, [Hid_dbg ''Parsing raw event for Arctis 1 headset (len: %d)''])"
    by (simp add: steelseries_headset_raw_event_def parse_short)
  with True show ?thesis by simp
next
  case False
  obtain dec log where parse: "raw_event_parse headset read_buf sz = Inr (dec, log)"
    using parse_total [OF assms] by blast
  with False parse_None obtain c cap where dec: "dec = Some (c, cap)"
    by (cases dec) auto
  have log: "Spin_lock_irqsave \<notin> set log"
    using parse_log [OF parse] by auto
  let ?pre = "log @ snd (raw_event_connected c headset)
      @ snd (raw_event_capacity cap (fst (raw_event_connected c headset)))"
  have pre: "Spin_lock_irqsave \<notin> set ?pre"
    using log by (simp add: connected_events capacity_events)
  show ?thesis
    unfolding raw_event_processed [OF parse [unfolded dec]]
    using False pre
    by (simp add: arm_after capacity_after connected_after arm_events)
qed

theorem arm_attempt_unless_short_witness:
  "nat (sint (8 :: c_int)) \<le> length absent_report
   \<and> (\<exists>headset1 evs.
         steelseries_headset_raw_event 5 arctis_1_headset absent_report 8
           = Inr (0, headset1, evs)
         \<and> (\<exists>pre. evs = pre @ [Spin_lock_irqsave, Schedule_delayed_work 3000,
                                Spin_unlock_irqrestore]
                  \<and> Spin_lock_irqsave \<notin> set pre)
         \<and> battery_work headset1 = [3005])"
proof -
  have l: "nat (sint (8 :: c_int)) \<le> length absent_report"
    by (simp add: absent_report_def)
  have s: "\<not> removed arctis_1_headset" "\<not> sint (8 :: c_int) < 8"
    by (simp_all add: arctis_1_headset_def)
  show ?thesis
    using l s arm_attempt_unless_short [OF l, of 5 arctis_1_headset] by simp
qed

text \<open>
  C6 as stated fails: an Arctis-1 device that is not removed and has nothing armed
  gets a 4-byte report; the handler logs, returns 0, takes no lock and arms nothing.
\<close>

theorem arm_attempt_counterexample:
  "\<not> removed arctis_1_headset
   \<and> steelseries_headset_raw_event 0 arctis_1_headset [0, 0, 0, 0] 4
       = Inr (0, arctis_1_headset,
              [Hid_dbg ''Parsing raw event for Arctis 1 headset (len: %d)''])
   \<and> battery_work arctis_1_headset = []"
  by (simp add: steelseries_headset_raw_event_def raw_event_parse_def word_sless_alt
      arctis_1_headset_def STEELSERIES_ARCTIS_1_def)

subsection \<open>Devices without the Arctis-1 quirk\<close>

text \<open>
  C10. For a device whose quirk flags do not include the Arctis-1 flag, the handler,
  for every report of any length, returns 0, leaves the connection status and the
  battery level unchanged, makes no notification, and its only calls are the arming
  attempt: lock, the scheduling of the poll 3000 ms ahead unless \<open>removed\<close> is set,
  unlock.
\<close>

theorem other_model_report:
  assumes "quirks headset AND STEELSERIES_ARCTIS_1 = 0"
  shows "\<exists>headset1 evs.
           steelseries_headset_raw_event now headset read_buf sz = Inr (0, headset1, evs)
           \<and> headset_connected headset1 = headset_connected headset
           \<and> battery_capacity headset1 = battery_capacity headset
           \<and> filter is_notification evs = []
           \<and> evs = (if removed headset then [Spin_lock_irqsave, Spin_unlock_irqrestore]
                    else [Spin_lock_irqsave, Schedule_delayed_work 3000,
                          Spin_unlock_irqrestore])
           \<and> battery_work headset1 =
               (if removed headset then battery_work headset else [now + 3000])"
  unfolding raw_event_processed [OF parse_other [OF assms]]
  by (simp add: connected_same capacity_same arm_after arm_events)

theorem other_model_report_witness:
  "quirks other_headset AND STEELSERIES_ARCTIS_1 = 0
   \<and> (\<exists>headset1 evs.
         steelseries_headset_raw_event 7 other_headset [0, 0, 0] 3 = Inr (0, headset1, evs)
         \<and> headset_connected headset1 = headset_connected other_headset
         \<and> battery_capacity headset1 = battery_capacity other_headset
         \<and> filter is_notification evs = []
         \<and> evs = [Spin_lock_irqsave, Schedule_delayed_work 3000, Spin_unlock_irqrestore]
         \<and> battery_work headset1 = [3007])"
proof -
  have q: "quirks other_headset AND STEELSERIES_ARCTIS_1 = 0"
    by (simp add: other_headset_def)
  have s: "\<not> removed other_headset"
    by (simp add: other_headset_def arctis_1_headset_def)
  show ?thesis
    using q s other_model_report [OF q, of 7 "[0, 0, 0]" 3] by simp
qed

subsection \<open>The battery query\<close>

text \<open>
  The comparison \<^verbatim>\<open>ret < sizeof(battery_request)\<close> is made on unsigned 64-bit
  values: it holds for the returns 0 and 1 only, not for a negative return.
\<close>

lemma uint_scast_int: "uint (scast (r :: c_int) :: c_ulong) = sint r mod 2 ^ 64"
  using uint_word_of_int [where ?'a = 64, of "sint r"] by simp

lemma sint_c_int_range: "- (2 ^ 31) \<le> sint (r :: c_int) \<and> sint r < 2 ^ 31"
  using sint_ge [of r] sint_lt [of r] by simp

lemma mod_wrap_int:
  fixes k m :: int
  assumes "2 - m \<le> k" and "k < m"
  shows "(k mod m < 2) = (0 \<le> k \<and> k < 2)"
proof (cases "0 \<le> k")
  case True
  then have "k mod m = k" using assms by (simp add: mod_pos_pos_trivial)
  with True show ?thesis by simp
next
  case False
  have "(k + m) mod m = k + m"
    by (rule mod_pos_pos_trivial) (use assms False in auto)
  then have "k mod m = k + m" by simp
  with False assms show ?thesis by simp
qed

lemma scast_less_two:
  "((scast (r :: c_int) :: c_ulong) < 2) = (0 \<le> sint r \<and> sint r < 2)"
proof -
  have "((scast r :: c_ulong) < 2) = (sint r mod 2 ^ 64 < 2)"
    by (simp add: word_less_def uint_scast_int)
  also have "\<dots> = (0 \<le> sint r \<and> sint r < 2)"
    by (rule mod_wrap_int) (use sint_c_int_range [of r] in simp_all)
  finally show ?thesis .
qed

lemma fetch_request: 
  "\<lparr>reportnum = battery_request ! 0, buf = battery_request, len = length battery_request,
     rtype = HID_OUTPUT_REPORT, reqtype = HID_REQ_SET_REPORT\<rparr> = battery_transfer"
  by (simp add: battery_request_def battery_transfer_def)

lemma arctis_1_fetch_unfold:
  "steelseries_headset_arctis_1_fetch_battery env =
     (if \<not> kmemdup_ok env then (- ENOMEM, [])
      else if 0 \<le> sint (hid_hw_raw_request env battery_transfer)
              \<and> sint (hid_hw_raw_request env battery_transfer) < 2
           then (- ENODATA, [Hid_hw_raw_request battery_transfer,
                             Hid_err ''hid_hw_raw_request() failed with %d''])
           else (hid_hw_raw_request env battery_transfer,
                 [Hid_hw_raw_request battery_transfer]))"
proof -
  have two: "(of_nat (length battery_request) :: c_ulong) = 2"
    by (simp add: battery_request_def)
  show ?thesis
    unfolding steelseries_headset_arctis_1_fetch_battery_def Let_def fetch_request two
      scast_less_two
    by simp
qed

lemma errno_negative: "sint (- ENOMEM) < 0" "sint (- ENODATA) < 0"
  by (simp_all add: ENOMEM_def ENODATA_def)

lemma fetch_battery_unfold:
  "steelseries_headset_fetch_battery env headset =
     (if quirks headset AND STEELSERIES_ARCTIS_1 \<noteq> 0
      then snd (steelseries_headset_arctis_1_fetch_battery env)
           @ (if sint (fst (steelseries_headset_arctis_1_fetch_battery env)) < 0
              then [Hid_dbg ''Battery query failed (err: %d)''] else [])
      else [])"
  by (simp add: steelseries_headset_fetch_battery_def case_prod_beta word_sless_alt)

lemma fetch_battery_negative_passthrough:
  assumes "kmemdup_ok env" and "sint (hid_hw_raw_request env battery_transfer) < 0"
  shows "steelseries_headset_arctis_1_fetch_battery env
           = (hid_hw_raw_request env battery_transfer, [Hid_hw_raw_request battery_transfer])"
  using assms by (simp add: arctis_1_fetch_unfold)

text \<open>
  C8, as the code has it. When the command buffer can be allocated, the battery query
  makes exactly one transfer: the two bytes 0x06, 0x12 as an output report set with
  request id 0x06; its result is an error (negative) exactly when the transport's
  return is less than 2: it is \<^verbatim>\<open>-ENODATA\<close> when the transport reports 0 or 1
  bytes accepted, and the transport's count when that is 2 or more. When the buffer
  cannot be allocated it makes no transfer and returns \<^verbatim>\<open>-ENOMEM\<close>. The caller
  returns nothing; on an Arctis-1 device its calls are those of the query followed by
  one debug log line exactly when the query's result is negative, and on another
  device it makes none; it makes at most one transfer (no retry) and arms nothing.
\<close>

theorem fetch_battery_outcomes:
  "(kmemdup_ok env \<longrightarrow>
      filter is_transfer (snd (steelseries_headset_arctis_1_fetch_battery env))
        = [Hid_hw_raw_request battery_transfer]
      \<and> (sint (fst (steelseries_headset_arctis_1_fetch_battery env)) < 0
           \<longleftrightarrow> sint (hid_hw_raw_request env battery_transfer) < 2)
      \<and> (0 \<le> sint (hid_hw_raw_request env battery_transfer)
           \<and> sint (hid_hw_raw_request env battery_transfer) < 2
         \<longrightarrow> fst (steelseries_headset_arctis_1_fetch_battery env) = - ENODATA)
      \<and> (2 \<le> sint (hid_hw_raw_request env battery_transfer)
         \<longrightarrow> fst (steelseries_headset_arctis_1_fetch_battery env)
               = hid_hw_raw_request env battery_transfer))
   \<and> (\<not> kmemdup_ok env \<longrightarrow>
        steelseries_headset_arctis_1_fetch_battery env = (- ENOMEM, []))
   \<and> steelseries_headset_fetch_battery env headset =
       (if quirks headset AND STEELSERIES_ARCTIS_1 \<noteq> 0
        then snd (steelseries_headset_arctis_1_fetch_battery env)
             @ (if sint (fst (steelseries_headset_arctis_1_fetch_battery env)) < 0
                then [Hid_dbg ''Battery query failed (err: %d)''] else [])
        else [])
   \<and> length (filter is_transfer (steelseries_headset_fetch_battery env headset)) \<le> 1
   \<and> filter is_arming (steelseries_headset_fetch_battery env headset) = []"
  unfolding fetch_battery_unfold
  by (auto simp: arctis_1_fetch_unfold errno_negative)

theorem fetch_battery_outcomes_witness:
  "kmemdup_ok short_write_environment
   \<and> 0 \<le> sint (hid_hw_raw_request short_write_environment battery_transfer)
   \<and> sint (hid_hw_raw_request short_write_environment battery_transfer) < 2
   \<and> filter is_transfer (snd (steelseries_headset_arctis_1_fetch_battery short_write_environment))
       = [Hid_hw_raw_request battery_transfer]
   \<and> fst (steelseries_headset_arctis_1_fetch_battery short_write_environment) = - ENODATA
   \<and> \<not> kmemdup_ok no_buffer_environment
   \<and> steelseries_headset_arctis_1_fetch_battery no_buffer_environment = (- ENOMEM, [])"
proof -
  have k: "kmemdup_ok short_write_environment"
    and r: "hid_hw_raw_request short_write_environment battery_transfer = 1"
    and n: "\<not> kmemdup_ok no_buffer_environment"
    by (simp_all add: short_write_environment_def no_buffer_environment_def
        good_environment_def)
  show ?thesis
    using k r n
      fetch_battery_outcomes [of short_write_environment arctis_1_headset]
      fetch_battery_outcomes [of no_buffer_environment arctis_1_headset]
    by simp
qed

text \<open>
  C8 as stated fails where the command buffer cannot be allocated: no transfer is
  made, and the query fails although the transport would have accepted both bytes.
\<close>

theorem fetch_battery_counterexample:
  "filter is_transfer (snd (steelseries_headset_arctis_1_fetch_battery no_buffer_environment)) = []
   \<and> sint (fst (steelseries_headset_arctis_1_fetch_battery no_buffer_environment)) < 0
   \<and> \<not> sint (hid_hw_raw_request no_buffer_environment battery_transfer) < 2"
  by (simp add: arctis_1_fetch_unfold no_buffer_environment_def good_environment_def
      errno_negative)

subsection \<open>Allocation failures while attaching\<close>

lemma register_no_name:
  assumes "\<not> devm_kasprintf_ok env"
  shows "steelseries_headset_battery_register env headset
           = (- ENOMEM, headset\<lparr>battery_desc_name := None\<rparr>, [])"
  using assms by (simp add: steelseries_headset_battery_register_def)

lemma probe_past_start:
  assumes "devm_kzalloc_ok env" and "hid_parse_ret env = 0" and "hid_hw_start_ret env = 0"
  shows "steelseries_headset_probe env driver_data =
     (0,
      Some (fst (snd (steelseries_headset_battery_register env
                        (zeroed_headset\<lparr>quirks := driver_data\<rparr>)))),
      snd (snd (steelseries_headset_battery_register env
                  (zeroed_headset\<lparr>quirks := driver_data\<rparr>)))
      @ (if sint (fst (steelseries_headset_battery_register env
                         (zeroed_headset\<lparr>quirks := driver_data\<rparr>))) < 0
         then [Hid_err ''Failed to register battery for headset''] else []))"
  using assms
  by (simp add: steelseries_headset_probe_def Let_def case_prod_beta word_sless_alt)

text \<open>
  C9, as the code has it. When the allocation of the device state fails, probe returns
  \<^verbatim>\<open>-ENOMEM\<close> and nothing else happens. Once the state is allocated and
  \<^verbatim>\<open>hid_parse\<close> and \<^verbatim>\<open>hid_hw_start\<close> have returned 0, probe returns 0
  whatever fails later; in particular, when the allocation of the battery's name
  fails, the battery registration returns \<^verbatim>\<open>-ENOMEM\<close>, and probe logs that the
  battery could not be registered and still returns 0.
\<close>

theorem probe_allocation_failures:
  "(\<not> devm_kzalloc_ok env \<longrightarrow>
      steelseries_headset_probe env driver_data = (- ENOMEM, None, []))
   \<and> (devm_kzalloc_ok env \<and> hid_parse_ret env = 0 \<and> hid_hw_start_ret env = 0 \<longrightarrow>
        fst (steelseries_headset_probe env driver_data) = 0)
   \<and> (devm_kzalloc_ok env \<and> hid_parse_ret env = 0 \<and> hid_hw_start_ret env = 0
        \<and> \<not> devm_kasprintf_ok env \<longrightarrow>
        fst (steelseries_headset_battery_register env
               (zeroed_headset\<lparr>quirks := driver_data\<rparr>)) = - ENOMEM
        \<and> snd (snd (steelseries_headset_probe env driver_data))
            = [Hid_err ''Failed to register battery for headset''])"
proof -
  have "\<not> devm_kzalloc_ok env \<Longrightarrow>
      steelseries_headset_probe env driver_data = (- ENOMEM, None, [])"
    by (simp add: steelseries_headset_probe_def)
  moreover have "devm_kzalloc_ok env \<and> hid_parse_ret env = 0 \<and> hid_hw_start_ret env = 0 \<Longrightarrow>
      fst (steelseries_headset_probe env driver_data) = 0"
    by (simp add: probe_past_start)
  moreover have "devm_kzalloc_ok env \<and> hid_parse_ret env = 0 \<and> hid_hw_start_ret env = 0
        \<and> \<not> devm_kasprintf_ok env \<Longrightarrow>
        fst (steelseries_headset_battery_register env
               (zeroed_headset\<lparr>quirks := driver_data\<rparr>)) = - ENOMEM
        \<and> snd (snd (steelseries_headset_probe env driver_data))
            = [Hid_err ''Failed to register battery for headset'']"
    by (simp add: probe_past_start register_no_name errno_negative)
  ultimately show ?thesis by blast
qed

theorem probe_allocation_failures_witness:
  "\<not> devm_kzalloc_ok no_state_environment
   \<and> steelseries_headset_probe no_state_environment 1 = (- ENOMEM, None, [])
   \<and> devm_kzalloc_ok no_name_environment \<and> hid_parse_ret no_name_environment = 0
   \<and> hid_hw_start_ret no_name_environment = 0 \<and> \<not> devm_kasprintf_ok no_name_environment
   \<and> fst (steelseries_headset_probe no_name_environment 1) = 0
   \<and> snd (snd (steelseries_headset_probe no_name_environment 1))
       = [Hid_err ''Failed to register battery for headset'']"
proof -
  have a: "\<not> devm_kzalloc_ok no_state_environment"
    by (simp add: no_state_environment_def good_environment_def)
  have b: "devm_kzalloc_ok no_name_environment" "hid_parse_ret no_name_environment = 0"
    "hid_hw_start_ret no_name_environment = 0" "\<not> devm_kasprintf_ok no_name_environment"
    by (simp_all add: no_name_environment_def good_environment_def)
  show ?thesis
    using a b probe_allocation_failures [of no_state_environment 1]
      probe_allocation_failures [of no_name_environment 1]
    by simp
qed

text \<open>
  C9 as stated fails: the name of the battery cannot be allocated, the registration
  returns \<^verbatim>\<open>-ENOMEM\<close>, and probe returns 0.
\<close>

theorem probe_allocation_counterexample:
  "\<not> devm_kasprintf_ok no_name_environment
   \<and> fst (steelseries_headset_battery_register no_name_environment
            (zeroed_headset\<lparr>quirks := 1\<rparr>)) = - ENOMEM
   \<and> fst (steelseries_headset_probe no_name_environment 1) = 0"
proof -
  have b: "devm_kzalloc_ok no_name_environment" "hid_parse_ret no_name_environment = 0"
    "hid_hw_start_ret no_name_environment = 0" "\<not> devm_kasprintf_ok no_name_environment"
    by (simp_all add: no_name_environment_def good_environment_def)
  show ?thesis
    using b by (simp add: probe_past_start register_no_name)
qed

subsection \<open>The driver over time\<close>

text \<open>A report delivered with its own length is never read out of bounds.\<close>

lemma sint_le_uint: "sint (w :: c_int) \<le> uint w"
proof -
  have "- (2 ^ 31) \<le> uint w"
    by (rule order_trans [of _ 0]) simp_all
  then have "signed_take_bit 31 (uint w) \<le> uint w"
    by (simp only: signed_take_bit_int_less_eq_self_iff)
  then show ?thesis
    by (simp add: sint_uint)
qed

lemma sint_of_nat_le: "nat (sint (of_nat n :: c_int)) \<le> n"
proof -
  have "uint (of_nat n :: c_int) = int (take_bit 32 n)"
    using unsigned_of_nat [where ?'b = 32 and ?'a = int, of n] by simp
  also have "\<dots> \<le> int n"
    by (simp add: take_bit_nat_less_eq_self)
  finally have "sint (of_nat n :: c_int) \<le> int n"
    using sint_le_uint [of "of_nat n"] by linarith
  then show ?thesis by linarith
qed

lemma deliver_report_no_fault:
  "steelseries_headset_raw_event now headset report (of_nat (length report)) \<noteq> Inl f"
proof -
  obtain dec log where
    "raw_event_parse headset report (of_nat (length report)) = Inr (dec, log)"
    using parse_total [OF sint_of_nat_le] by blast
  then show ?thesis
    by (cases dec) (auto simp: steelseries_headset_raw_event_def case_prod_beta)
qed

lemma raw_event_cases:
  assumes "steelseries_headset_raw_event now h b s = Inr (r, h1, evs)"
  obtains (returned) log where "raw_event_parse h b s = Inr (None, log)"
      and "h1 = h" and "evs = log"
  | (processed) c cap log where "raw_event_parse h b s = Inr (Some (c, cap), log)"
      and "h1 = fst (raw_event_arm now (fst (raw_event_capacity cap (fst (raw_event_connected c h)))))"
      and "evs = log @ snd (raw_event_connected c h)
              @ snd (raw_event_capacity cap (fst (raw_event_connected c h)))
              @ snd (raw_event_arm now (fst (raw_event_capacity cap (fst (raw_event_connected c h)))))"
proof (cases "raw_event_parse h b s")
  case (Inl f)
  with assms show ?thesis by (simp add: steelseries_headset_raw_event_def)
next
  case (Inr p)
  obtain dec log where p: "p = (dec, log)" by (cases p)
  show ?thesis
  proof (cases dec)
    case None
    have parse: "raw_event_parse h b s = Inr (None, log)"
      using Inr p None by simp
    have "steelseries_headset_raw_event now h b s = Inr (0, h, log)"
      by (simp add: steelseries_headset_raw_event_def parse)
    with assms have "h1 = h" "evs = log" by simp_all
    with parse show ?thesis by (rule returned)
  next
    case (Some q)
    obtain c cap where q: "q = (c, cap)" by (cases q)
    have parse: "raw_event_parse h b s = Inr (Some (c, cap), log)"
      using Inr p Some q by simp
    have "h1 = fst (raw_event_arm now (fst (raw_event_capacity cap (fst (raw_event_connected c h)))))"
      and "evs = log @ snd (raw_event_connected c h)
              @ snd (raw_event_capacity cap (fst (raw_event_connected c h)))
              @ snd (raw_event_arm now (fst (raw_event_capacity cap (fst (raw_event_connected c h)))))"
      using assms unfolding raw_event_processed [OF parse] by simp_all
    with parse show ?thesis by (rule processed)
  qed
qed

lemma raw_event_work:
  assumes "steelseries_headset_raw_event now h b s = Inr (r, h1, evs)"
  shows "removed h1 = removed h"
    and "battery_work h1 = battery_work h \<or> (\<not> removed h \<and> battery_work h1 = [now + 3000])"
    and "removed h \<Longrightarrow> battery_work h1 = battery_work h"
    and "removed h \<Longrightarrow> filter is_arming evs = []"
    and "filter is_transfer evs = []"
proof -
  show "removed h1 = removed h"
    using assms
    by (cases rule: raw_event_cases) (simp_all add: arm_after capacity_after connected_after)
  show "battery_work h1 = battery_work h \<or> (\<not> removed h \<and> battery_work h1 = [now + 3000])"
    using assms
    by (cases rule: raw_event_cases) (simp_all add: arm_after capacity_after connected_after)
  show "battery_work h1 = battery_work h" if "removed h"
    using assms that
    by (cases rule: raw_event_cases) (simp_all add: arm_after capacity_after connected_after)
  show "filter is_arming evs = []" if "removed h"
    using assms that
  proof (cases rule: raw_event_cases)
    case (returned log)
    then show ?thesis using parse_log [of h b s None log] by auto
  next
    case (processed c cap log)
    then show ?thesis
      using that parse_log [of h b s "Some (c, cap)" log]
      by (auto simp: arm_after capacity_after connected_after connected_events
          capacity_events arm_events)
  qed
  show "filter is_transfer evs = []"
    using assms
  proof (cases rule: raw_event_cases)
    case (returned log)
    then show ?thesis using parse_log [of h b s None log] by auto
  next
    case (processed c cap log)
    then show ?thesis
      using parse_log [of h b s "Some (c, cap)" log]
      by (auto simp: connected_events capacity_events arm_events)
  qed
qed

lemma deliver_report_work:
  assumes "deliver_report now report h = (h1, evs)"
  shows "removed h1 = removed h"
    and "battery_work h1 = battery_work h \<or> (\<not> removed h \<and> battery_work h1 = [now + 3000])"
    and "removed h \<Longrightarrow> battery_work h1 = battery_work h"
    and "removed h \<Longrightarrow> filter is_arming evs = []"
    and "filter is_transfer evs = []"
proof -
  obtain r where
    "steelseries_headset_raw_event now h report (of_nat (length report)) = Inr (r, h1, evs)"
    using assms deliver_report_no_fault [of now h report]
    by (auto simp: deliver_report_def split: sum.splits)
  note facts = raw_event_work [OF this]
  show "removed h1 = removed h" by (rule facts)
  show "battery_work h1 = battery_work h \<or> (\<not> removed h \<and> battery_work h1 = [now + 3000])"
    by (rule facts)
  show "battery_work h1 = battery_work h" if "removed h" using that by (rule facts)
  show "filter is_arming evs = []" if "removed h" using that by (rule facts)
  show "filter is_transfer evs = []" by (rule facts)
qed

lemma timer_expire_work:
  "removed (fst (timer_expire env now h)) = removed h"
  "battery_work (fst (timer_expire env now h)) = filter (\<lambda>t. now < t) (battery_work h)"
  "battery_work h = [] \<Longrightarrow> snd (timer_expire env now h) = []"
  by (simp_all add: timer_expire_def Let_def)

lemma remove_work:
  "removed (fst (steelseries_headset_remove h))"
  "battery_work (fst (steelseries_headset_remove h)) = []"
  by (simp_all add: steelseries_headset_remove_def Let_def cancel_delayed_work_sync_def)

lemma step_after_remove:
  assumes "removed h" and "battery_work h = []"
  shows "removed (fst (step now a h))" and "battery_work (fst (step now a h)) = []"
    and "filter is_arming (snd (step now a h)) = []"
    and "filter is_transfer (snd (step now a h)) = []"
proof -
  show "removed (fst (step now a h))"
    using assms deliver_report_work(1) [of now _ h]
    by (cases a) (simp_all add: timer_expire_work remove_work prod_eq_iff)
  show "battery_work (fst (step now a h)) = []"
    using assms deliver_report_work(3) [of now _ h]
    by (cases a) (simp_all add: timer_expire_work remove_work prod_eq_iff)
  show "filter is_arming (snd (step now a h)) = []"
    using assms deliver_report_work(4) [of now _ h]
    by (cases a) (simp_all add: timer_expire_work steelseries_headset_remove_def prod_eq_iff)
  show "filter is_transfer (snd (step now a h)) = []"
    using assms deliver_report_work(5) [of now _ h]
    by (cases a) (simp_all add: timer_expire_work steelseries_headset_remove_def prod_eq_iff)
qed

lemma run_after_remove:
  assumes "removed h" and "battery_work h = []"
  shows "removed (fst (run acts h)) \<and> battery_work (fst (run acts h)) = []
         \<and> filter is_arming (snd (run acts h)) = []
         \<and> filter is_transfer (snd (run acts h)) = []"
  using assms
proof (induction acts arbitrary: h)
  case Nil
  then show ?case by simp
next
  case (Cons ta acts)
  obtain now a where ta: "ta = (now, a)" by (cases ta)
  note s = step_after_remove [OF Cons.prems, of now a]
  note ih = Cons.IH [OF s(1) s(2)]
  show ?case
    using s ih by (simp add: ta case_prod_beta)
qed

text \<open>
  C1. After \<^verbatim>\<open>steelseries_headset_remove\<close> has set \<open>removed\<close> and cancelled the
  delayed work, whatever happens next (reports of any content, timer runs, a second
  removal), \<open>removed\<close> stays set, nothing is armed and no call to
  \<^verbatim>\<open>schedule_delayed_work\<close> is made, so no poll runs and no battery query is sent;
  in every state reached, the arming block of the report handler takes the lock, sees
  \<open>removed\<close> and releases the lock without doing anything.
\<close>

theorem no_arming_after_remove:
  "removed (fst (run acts (fst (steelseries_headset_remove headset))))
   \<and> battery_work (fst (run acts (fst (steelseries_headset_remove headset)))) = []
   \<and> filter is_arming (snd (run acts (fst (steelseries_headset_remove headset)))) = []
   \<and> filter is_transfer (snd (run acts (fst (steelseries_headset_remove headset)))) = []
   \<and> raw_event_arm now (fst (run acts (fst (steelseries_headset_remove headset))))
       = (fst (run acts (fst (steelseries_headset_remove headset))),
          [Spin_lock_irqsave, Spin_unlock_irqrestore])"
proof -
  note r = run_after_remove [OF remove_work, of acts headset]
  then show ?thesis by (simp add: raw_event_arm_def)
qed

theorem no_arming_after_remove_witness:
  "removed (fst (run [(10, Report present_report), (5000, Timer good_environment)]
                   (fst (steelseries_headset_remove armed_headset))))
   \<and> battery_work (fst (run [(10, Report present_report), (5000, Timer good_environment)]
                          (fst (steelseries_headset_remove armed_headset)))) = []
   \<and> filter is_arming (snd (run [(10, Report present_report), (5000, Timer good_environment)]
                              (fst (steelseries_headset_remove armed_headset)))) = []
   \<and> battery_work armed_headset = [3000]"
  using no_arming_after_remove [of "[(10, Report present_report), (5000, Timer good_environment)]"
      armed_headset 0]
  by (simp add: armed_headset_def arctis_1_headset_def)

subsection \<open>How many polls are armed\<close>

lemma step_one_armed:
  assumes "length (battery_work h) \<le> 1"
  shows "length (battery_work (fst (step now a h))) \<le> 1"
proof (cases a)
  case (Report report)
  obtain h1 evs where d: "deliver_report now report h = (h1, evs)"
    by (cases "deliver_report now report h")
  from deliver_report_work(2) [OF d] assms show ?thesis
    by (auto simp: Report d)
next
  case (Timer env)
  have "length (filter (\<lambda>t. now < t) (battery_work h)) \<le> 1"
    by (rule order_trans [OF length_filter_le assms])
  then show ?thesis by (simp add: Timer timer_expire_work)
next
  case Remove
  then show ?thesis by (simp add: remove_work)
qed

lemma run_one_armed:
  assumes "length (battery_work h) \<le> 1"
  shows "length (battery_work (fst (run acts h))) \<le> 1"
  using assms
proof (induction acts arbitrary: h)
  case Nil
  then show ?case by simp
next
  case (Cons ta acts)
  obtain now a where ta: "ta = (now, a)" by (cases ta)
  from Cons.IH [OF step_one_armed [OF Cons.prems, of now a]]
  show ?case by (simp add: ta case_prod_beta)
qed

lemma register_work:
  "battery_work (fst (snd (steelseries_headset_battery_register env h))) = battery_work h
   \<or> battery_work (fst (snd (steelseries_headset_battery_register env h))) = []"
  by (simp add: steelseries_headset_battery_register_def Let_def INIT_DELAYED_WORK_def
      split: option.splits)

lemma probe_work:
  assumes "steelseries_headset_probe env driver_data = (r, Some h, evs)"
  shows "battery_work h = []"
proof -
  have z: "battery_work (zeroed_headset\<lparr>quirks := driver_data\<rparr>) = []"
    by (simp add: zeroed_headset_def)
  show ?thesis
    using assms register_work [of env "zeroed_headset\<lparr>quirks := driver_data\<rparr>"] z
    by (auto simp: steelseries_headset_probe_def Let_def case_prod_beta split: if_splits)
qed

lemma raw_event_reaches_arm:
  assumes "\<not> (quirks h AND STEELSERIES_ARCTIS_1 \<noteq> 0 \<and> sint s < 8)"
    and "nat (sint s) \<le> length b"
  shows "\<exists>h1 evs. steelseries_headset_raw_event now h b s = Inr (0, h1, evs)
           \<and> battery_work h1 = (if removed h then battery_work h else [now + 3000])
           \<and> removed h1 = removed h \<and> quirks h1 = quirks h"
proof -
  obtain dec log where parse: "raw_event_parse h b s = Inr (dec, log)"
    using parse_total [OF assms(2)] by blast
  with assms(1) parse_None obtain c cap where dec: "dec = Some (c, cap)"
    by (cases dec) auto
  show ?thesis
    unfolding raw_event_processed [OF parse [unfolded dec]]
    by (simp add: arm_after capacity_after connected_after)
qed

text \<open>
  C7. At most one poll is armed at any time: a device with at most one armed poll, and
  so any device as probe leaves it, has at most one after any sequence of reports,
  timer runs and removals. When the handler arms twice in a row on a device that is
  not removed (two reports that are not dropped as too short, at times \<open>t1\<close> and
  \<open>t2\<close>), the one armed poll afterwards is the one due at \<open>t2 + 3000\<close>: the second
  arming has taken the place of the first.
\<close>

theorem at_most_one_armed:
  "(length (battery_work headset) \<le> 1 \<longrightarrow>
      length (battery_work (fst (run acts headset))) \<le> 1)
   \<and> (steelseries_headset_probe env driver_data = (r, Some headset0, evs0) \<longrightarrow>
        length (battery_work (fst (run acts headset0))) \<le> 1)
   \<and> (\<not> removed headset
        \<and> \<not> (quirks headset AND STEELSERIES_ARCTIS_1 \<noteq> 0 \<and> sint sz1 < 8)
        \<and> nat (sint sz1) \<le> length report1
        \<and> \<not> (quirks headset AND STEELSERIES_ARCTIS_1 \<noteq> 0 \<and> sint sz2 < 8)
        \<and> nat (sint sz2) \<le> length report2 \<longrightarrow>
        (\<exists>headset1 evs1 headset2 evs2.
           steelseries_headset_raw_event t1 headset report1 sz1 = Inr (0, headset1, evs1)
           \<and> battery_work headset1 = [t1 + 3000]
           \<and> steelseries_headset_raw_event t2 headset1 report2 sz2 = Inr (0, headset2, evs2)
           \<and> battery_work headset2 = [t2 + 3000]))"
proof (intro conjI impI)
  assume "length (battery_work headset) \<le> 1"
  then show "length (battery_work (fst (run acts headset))) \<le> 1"
    by (rule run_one_armed)
next
  assume "steelseries_headset_probe env driver_data = (r, Some headset0, evs0)"
  then have "battery_work headset0 = []" by (rule probe_work)
  then have "length (battery_work headset0) \<le> 1" by simp
  then show "length (battery_work (fst (run acts headset0))) \<le> 1"
    by (rule run_one_armed)
next
  assume a: "\<not> removed headset
        \<and> \<not> (quirks headset AND STEELSERIES_ARCTIS_1 \<noteq> 0 \<and> sint sz1 < 8)
        \<and> nat (sint sz1) \<le> length report1
        \<and> \<not> (quirks headset AND STEELSERIES_ARCTIS_1 \<noteq> 0 \<and> sint sz2 < 8)
        \<and> nat (sint sz2) \<le> length report2"
  then obtain headset1 evs1 where
    one: "steelseries_headset_raw_event t1 headset report1 sz1 = Inr (0, headset1, evs1)"
      "battery_work headset1 = [t1 + 3000]"
      "removed headset1 = removed headset" "quirks headset1 = quirks headset"
    using raw_event_reaches_arm [of headset sz1 report1 t1] by auto
  from a one(3,4) obtain headset2 evs2 where
    two: "steelseries_headset_raw_event t2 headset1 report2 sz2 = Inr (0, headset2, evs2)"
      "battery_work headset2 = [t2 + 3000]"
    using raw_event_reaches_arm [of headset1 sz2 report2 t2] by auto
  from one(1,2) two
  show "\<exists>headset1 evs1 headset2 evs2.
           steelseries_headset_raw_event t1 headset report1 sz1 = Inr (0, headset1, evs1)
           \<and> battery_work headset1 = [t1 + 3000]
           \<and> steelseries_headset_raw_event t2 headset1 report2 sz2 = Inr (0, headset2, evs2)
           \<and> battery_work headset2 = [t2 + 3000]"
    by blast
qed

theorem at_most_one_armed_witness:
  "length (battery_work arctis_1_headset) \<le> 1
   \<and> length (battery_work (fst (run [(0, Report present_report), (1000, Report present_report)]
                                arctis_1_headset))) \<le> 1
   \<and> \<not> removed arctis_1_headset
   \<and> \<not> (quirks arctis_1_headset AND STEELSERIES_ARCTIS_1 \<noteq> 0 \<and> sint (8 :: c_int) < 8)
   \<and> nat (sint (8 :: c_int)) \<le> length present_report
   \<and> (\<exists>headset1 evs1 headset2 evs2.
         steelseries_headset_raw_event 0 arctis_1_headset present_report 8
           = Inr (0, headset1, evs1)
         \<and> battery_work headset1 = [3000]
         \<and> steelseries_headset_raw_event 1000 headset1 present_report 8
             = Inr (0, headset2, evs2)
         \<and> battery_work headset2 = [4000])"
proof -
  have a: "length (battery_work arctis_1_headset) \<le> 1" "\<not> removed arctis_1_headset"
    by (simp_all add: arctis_1_headset_def)
  have b: "\<not> sint (8 :: c_int) < 8" "nat (sint (8 :: c_int)) \<le> length present_report"
    by (simp_all add: present_report_def)
  show ?thesis
    using a b
      at_most_one_armed [where headset = arctis_1_headset
        and acts = "[(0, Report present_report), (1000, Report present_report)]"
        and ?sz1.0 = 8 and ?sz2.0 = 8 and ?report1.0 = present_report and ?report2.0 = present_report
        and ?t1.0 = 0 and ?t2.0 = 1000]
    by simp
qed

end
